theory Spec2Isabelle
  imports Complex_Main
begin

section \<open>Data model\<close>

text \<open>
  The C++ type \<open>double\<close> is modelled by \<^typ>\<open>real\<close>: rounding, infinities and NaN are
  outside the model. The C++ type \<open>int\<close> is modelled by \<^typ>\<open>int\<close>; none of the
  properties below depends on 32-bit overflow.
\<close>

subsection \<open>Vector3 (include/sdf/Vector3.h)\<close>

text \<open>The members \<open>x\<close>, \<open>y\<close>, \<open>z\<close> of the class are the selectors \<open>vx\<close>, \<open>vy\<close>, \<open>vz\<close>.\<close>

datatype Vector3 = Vector3 (vx: real) (vy: real) (vz: real)

text \<open>\<open>operator+\<close>, \<open>operator-\<close>, \<open>operator*(double)\<close>, \<open>operator*(Vector3)\<close>,
  \<open>operator/(double)\<close>, \<open>operator/(Vector3)\<close> and unary minus.\<close>

definition vadd :: "Vector3 \<Rightarrow> Vector3 \<Rightarrow> Vector3" where
  "vadd a b = Vector3 (vx a + vx b) (vy a + vy b) (vz a + vz b)"

definition vsub :: "Vector3 \<Rightarrow> Vector3 \<Rightarrow> Vector3" where
  "vsub a b = Vector3 (vx a - vx b) (vy a - vy b) (vz a - vz b)"

definition smul :: "Vector3 \<Rightarrow> real \<Rightarrow> Vector3" where
  "smul a scalar = Vector3 (vx a * scalar) (vy a * scalar) (vz a * scalar)"

definition vmul :: "Vector3 \<Rightarrow> Vector3 \<Rightarrow> Vector3" where
  "vmul a b = Vector3 (vx a * vx b) (vy a * vy b) (vz a * vz b)"

definition sdiv :: "Vector3 \<Rightarrow> real \<Rightarrow> Vector3" where
  "sdiv a scalar = Vector3 (vx a / scalar) (vy a / scalar) (vz a / scalar)"

definition vdiv :: "Vector3 \<Rightarrow> Vector3 \<Rightarrow> Vector3" where
  "vdiv a b = Vector3 (vx a / vx b) (vy a / vy b) (vz a / vz b)"

definition vneg :: "Vector3 \<Rightarrow> Vector3" where
  "vneg a = Vector3 (- vx a) (- vy a) (- vz a)"

definition vlength :: "Vector3 \<Rightarrow> real" where
  "vlength a = sqrt (vx a * vx a + vy a * vy a + vz a * vz a)"

definition lengthSquared :: "Vector3 \<Rightarrow> real" where
  "lengthSquared a = vx a * vx a + vy a * vy a + vz a * vz a"

definition normalized :: "Vector3 \<Rightarrow> Vector3" where
  "normalized a =
     (let len = vlength a in
      if len < 1 / 10 ^ 10 then Vector3 0 0 0 else sdiv a len)"

definition dot :: "Vector3 \<Rightarrow> Vector3 \<Rightarrow> real" where
  "dot a b = vx a * vx b + vy a * vy b + vz a * vz b"

definition cross :: "Vector3 \<Rightarrow> Vector3 \<Rightarrow> Vector3" where
  "cross a b = Vector3 (vy a * vz b - vz a * vy b)
                       (vz a * vx b - vx a * vz b)
                       (vx a * vy b - vy a * vx b)"

definition vmin :: "Vector3 \<Rightarrow> Vector3 \<Rightarrow> Vector3" where
  "vmin a b = Vector3 (min (vx a) (vx b)) (min (vy a) (vy b)) (min (vz a) (vz b))"

definition vmax :: "Vector3 \<Rightarrow> Vector3 \<Rightarrow> Vector3" where
  "vmax a b = Vector3 (max (vx a) (vx b)) (max (vy a) (vy b)) (max (vz a) (vz b))"

text \<open>The file-local template \<open>clamp(value, min, max)\<close>.\<close>

definition clamp :: "real \<Rightarrow> real \<Rightarrow> real \<Rightarrow> real" where
  "clamp v lo hi = max lo (min v hi)"

subsection \<open>Errors\<close>

text \<open>
  The sources contain no \<open>throw\<close>. What can go wrong is a read past the end of a
  \<open>std::vector\<close> or of a table row (undefined behaviour in C++), a loop whose
  counter does not advance, and a quotient whose divisor is zero (not a real number;
  an infinity or NaN in C++).
\<close>

datatype error = OutOfBounds | NonTermination | DivisionByZero

definition ebind :: "error + 'a \<Rightarrow> ('a \<Rightarrow> error + 'b) \<Rightarrow> error + 'b" where
  "ebind m f = (case m of Inl e \<Rightarrow> Inl e | Inr v \<Rightarrow> f v)"

text \<open>\<open>v[i]\<close> on a \<open>std::vector\<close> or a C array, with the bound made explicit.\<close>

definition read_at :: "'a list \<Rightarrow> nat \<Rightarrow> error + 'a" where
  "read_at xs i = (if i < length xs then Inr (xs ! i) else Inl OutOfBounds)"

text \<open>A loop that pushes one computed element per iteration, stopping at the first
  failure.\<close>

fun collect :: "('i \<Rightarrow> error + 'a) \<Rightarrow> 'i list \<Rightarrow> error + 'a list" where
  "collect f [] = Inr []"
| "collect f (i # is) =
     (case f i of
        Inl e \<Rightarrow> Inl e
      | Inr v \<Rightarrow> (case collect f is of Inl e \<Rightarrow> Inl e | Inr vs \<Rightarrow> Inr (v # vs)))"

subsection \<open>SDF3 (include/sdf/SDF3.h, src/SDF3.cpp)\<close>

type_synonym Function = "Vector3 \<Rightarrow> real"
type_synonym VectorFunction = "Vector3 list \<Rightarrow> error + real list"

text \<open>The members \<open>vecFunc_\<close> and \<open>k_\<close>; \<open>getFunction()\<close> and \<open>getK()\<close> are the
  selectors.\<close>

record SDF3 =
  vecFunc :: VectorFunction
  getK :: real

definition wrapFunction :: "Function \<Rightarrow> VectorFunction" where
  "wrapFunction func = (\<lambda>points. Inr (map func points))"

text \<open>The three constructors \<open>SDF3()\<close>, \<open>SDF3(Function)\<close>, \<open>SDF3(VectorFunction)\<close>.\<close>

definition SDF3_default :: SDF3 where
  "SDF3_default = \<lparr> vecFunc = (\<lambda>points. Inr []), getK = 0 \<rparr>"

definition SDF3_of_Function :: "Function \<Rightarrow> SDF3" where
  "SDF3_of_Function func = \<lparr> vecFunc = wrapFunction func, getK = 0 \<rparr>"

definition SDF3_of_VectorFunction :: "VectorFunction \<Rightarrow> SDF3" where
  "SDF3_of_VectorFunction vf = \<lparr> vecFunc = vf, getK = 0 \<rparr>"

text \<open>\<open>SDF3::operator()(point)\<close> and \<open>SDF3::evaluate(points)\<close>.\<close>

definition call :: "SDF3 \<Rightarrow> Vector3 \<Rightarrow> error + real" where
  "call f point =
     (case vecFunc f [point] of
        Inl e \<Rightarrow> Inl e
      | Inr result \<Rightarrow> Inr (if result = [] then 0 else hd result))"

definition evaluate :: "SDF3 \<Rightarrow> Vector3 list \<Rightarrow> error + real list" where
  "evaluate f points = vecFunc f points"

text \<open>\<open>SDF3::k(k_value)\<close>: a copy with the smoothing tag replaced.\<close>

definition SDF3_k :: "SDF3 \<Rightarrow> real \<Rightarrow> SDF3" where
  "SDF3_k f k_value = f \<lparr> getK := k_value \<rparr>"

text \<open>The closure built by \<open>SDF3::operator|\<close>: both operands are evaluated on the whole
  batch, then one loop over \<open>i < points.size()\<close> reads \<open>a[i]\<close> and \<open>b[i]\<close>.\<close>

definition union_closure :: "VectorFunction \<Rightarrow> VectorFunction \<Rightarrow> real \<Rightarrow> VectorFunction" where
  "union_closure thisFunc otherFunc k = (\<lambda>points.
     ebind (thisFunc points) (\<lambda>a.
     ebind (otherFunc points) (\<lambda>b.
       if k = 0 then
         collect (\<lambda>i. ebind (read_at a i) (\<lambda>ai. ebind (read_at b i) (\<lambda>bi.
                    Inr (min ai bi))))
                 [0 ..< length points]
       else
         collect (\<lambda>i. ebind (read_at b i) (\<lambda>bi. ebind (read_at a i) (\<lambda>ai.
                    let h = clamp (0.5 + 0.5 * (bi - ai) / k) 0 1;
                        d = bi * (1 - h) + ai * h - k * h * (1 - h)
                    in Inr d)))
                 [0 ..< length points])))"

definition SDF3_union :: "SDF3 \<Rightarrow> SDF3 \<Rightarrow> SDF3" where
  "SDF3_union this other =
     (let k = max (getK this) (getK other)
      in SDF3_of_VectorFunction (union_closure (vecFunc this) (vecFunc other) k))"

text \<open>\<open>unionOp(a, b, k)\<close> of src/Operations.cpp.\<close>

definition unionOp :: "SDF3 \<Rightarrow> SDF3 \<Rightarrow> real \<Rightarrow> SDF3" where
  "unionOp a b k = (if k > 0 then SDF3_union (SDF3_k a k) (SDF3_k b k) else SDF3_union a b)"

text \<open>\<open>scale(sdf, double factor)\<close> of src/Operations.cpp.\<close>

definition scale :: "SDF3 \<Rightarrow> real \<Rightarrow> SDF3" where
  "scale sdf factor =
     (let func = vecFunc sdf
      in SDF3_of_VectorFunction (\<lambda>points.
           ebind (func (map (\<lambda>p. sdiv p factor) points)) (\<lambda>result.
             Inr (map (\<lambda>r. r * factor) result))))"

text \<open>\<open>scale(sdf, const Vector3& factor)\<close> of src/Operations.cpp: the points are divided
  componentwise, the distances are passed on as they are.\<close>

definition scale_Vector3 :: "SDF3 \<Rightarrow> Vector3 \<Rightarrow> SDF3" where
  "scale_Vector3 sdf factor =
     (let func = vecFunc sdf
      in SDF3_of_VectorFunction (\<lambda>points. func (map (\<lambda>p. vdiv p factor) points)))"

subsection \<open>Primitives (src/Primitives.cpp)\<close>

definition sphere :: "real \<Rightarrow> Vector3 \<Rightarrow> SDF3" where
  "sphere radius center = SDF3_of_Function (\<lambda>p. vlength (vsub p center) - radius)"

subsection \<open>Marching cubes: edge interpolation (src/MarchingCubes.cpp)\<close>

text \<open>The quotient of \<open>vertexInterp\<close>, with the case of a zero divisor kept apart.\<close>

definition checked_div :: "real \<Rightarrow> real \<Rightarrow> error + real" where
  "checked_div a b = (if b = 0 then Inl DivisionByZero else Inr (a / b))"

definition vertexInterp :: "real \<Rightarrow> Vector3 \<Rightarrow> Vector3 \<Rightarrow> real \<Rightarrow> real \<Rightarrow> error + Vector3" where
  "vertexInterp isolevel p1 p2 v1 v2 =
     (if \<bar>isolevel - v1\<bar> < 1 / 10 ^ 10 then Inr p1
      else if \<bar>isolevel - v2\<bar> < 1 / 10 ^ 10 then Inr p2
      else if \<bar>v1 - v2\<bar> < 1 / 10 ^ 10 then Inr p1
      else ebind (checked_div (isolevel - v1) (v2 - v1)) (\<lambda>mu.
             Inr (vadd p1 (smul (vsub p2 p1) mu))))"

subsection \<open>Constants (include/sdf/Constants.h)\<close>

text \<open>\<open>PI\<close> is the decimal literal of the header, \<open>Z\<close> the unit vector \<open>(0, 0, 1)\<close>.\<close>

definition PI :: real where
  "PI = 314159265358979323846 / 10 ^ 20"

definition Z :: Vector3 where
  "Z = Vector3 0 0 1"

subsection \<open>Rotate and orient (src/Operations.cpp)\<close>

text \<open>The lambda \<open>rotatePoint\<close> of \<open>rotate\<close>, with its captures \<open>a\<close>, \<open>c\<close>, \<open>s\<close>, \<open>t\<close> as
  parameters.\<close>

definition rotatePoint :: "Vector3 \<Rightarrow> real \<Rightarrow> real \<Rightarrow> real \<Rightarrow> Vector3 \<Rightarrow> Vector3" where
  "rotatePoint a c s t p =
     Vector3 (vx p * (t * vx a * vx a + c) +
              vy p * (t * vx a * vy a + s * vz a) +
              vz p * (t * vx a * vz a - s * vy a))
             (vx p * (t * vx a * vy a - s * vz a) +
              vy p * (t * vy a * vy a + c) +
              vz p * (t * vy a * vz a + s * vx a))
             (vx p * (t * vx a * vz a + s * vy a) +
              vy p * (t * vy a * vz a - s * vx a) +
              vz p * (t * vz a * vz a + c))"

text \<open>\<open>rotate\<close> has no failing branch: it returns a field for every axis.\<close>

definition rotate :: "SDF3 \<Rightarrow> real \<Rightarrow> Vector3 \<Rightarrow> SDF3" where
  "rotate sdf angle axis =
     (let a = normalized axis;
          c = cos angle;
          s = sin angle;
          t = 1 - c;
          func = vecFunc sdf
      in SDF3_of_VectorFunction (\<lambda>points. func (map (rotatePoint a c s t) points)))"

definition orient :: "SDF3 \<Rightarrow> Vector3 \<Rightarrow> SDF3" where
  "orient sdf targetAxis =
     (let src = Z;
          dst = normalized targetAxis
      in if lengthSquared (vsub src dst) < 1 / 10 ^ 10 then sdf
         else if lengthSquared (vadd src dst) < 1 / 10 ^ 10 then
           (let perp = (if \<bar>vx src\<bar> < 0.9 then Vector3 1 0 0 else Vector3 0 1 0)
            in rotate sdf PI perp)
         else
           (let axis = normalized (cross src dst);
                angle = arccos (clamp (dot src dst) (- 1) 1)
            in rotate sdf angle axis))"

subsection \<open>Sparse skip test (src/MeshGenerator.cpp)\<close>

text \<open>The eight corners in the order of the initializer list of \<open>canSkipBatch\<close>.\<close>

definition batch_corners :: "Vector3 \<Rightarrow> Vector3 \<Rightarrow> Vector3 list" where
  "batch_corners batchMin batchMax =
     [Vector3 (vx batchMin) (vy batchMin) (vz batchMin),
      Vector3 (vx batchMax) (vy batchMin) (vz batchMin),
      Vector3 (vx batchMin) (vy batchMax) (vz batchMin),
      Vector3 (vx batchMax) (vy batchMax) (vz batchMin),
      Vector3 (vx batchMin) (vy batchMin) (vz batchMax),
      Vector3 (vx batchMax) (vy batchMin) (vz batchMax),
      Vector3 (vx batchMin) (vy batchMax) (vz batchMax),
      Vector3 (vx batchMax) (vy batchMax) (vz batchMax)]"

text \<open>The loop \<open>for (double v : values)\<close> over the pair \<open>(allPositive, allNegative)\<close>.\<close>

fun sign_flags :: "real list \<Rightarrow> bool \<times> bool \<Rightarrow> bool \<times> bool" where
  "sign_flags [] (allPositive, allNegative) = (allPositive, allNegative)"
| "sign_flags (v # vs) (allPositive, allNegative) =
     sign_flags vs (if v < 0 then False else allPositive,
                    if v > 0 then False else allNegative)"

definition canSkipBatch :: "SDF3 \<Rightarrow> Vector3 \<Rightarrow> Vector3 \<Rightarrow> error + bool" where
  "canSkipBatch sdf batchMin batchMax =
     (let center = smul (vadd batchMin batchMax) 0.5;
          radius = vlength (vsub batchMax batchMin) / 2
      in ebind (call sdf center) (\<lambda>centerDist.
           if \<bar>centerDist\<bar> \<le> radius then Inr False
           else ebind (evaluate sdf (batch_corners batchMin batchMax)) (\<lambda>values.
                  case sign_flags values (True, True) of
                    (allPositive, allNegative) \<Rightarrow> Inr (allPositive \<or> allNegative))))"

text \<open>The unit sphere squeezed to a tenth along \<open>x\<close>: an approximate distance field
  built with the library's own operators.\<close>

definition stretched_sphere :: SDF3 where
  "stretched_sphere = scale_Vector3 (sphere 1 (Vector3 0 0 0)) (Vector3 (1 / 10) 1 1)"

subsection \<open>Marching cubes: tables and surface extraction (src/MarchingCubes.cpp)\<close>

text \<open>\<open>v[i]\<close> with an \<open>int\<close> index.\<close>

definition read_at_int :: "'a list \<Rightarrow> int \<Rightarrow> error + 'a" where
  "read_at_int xs i = (if 0 \<le> i \<and> nat i < length xs then Inr (xs ! nat i) else Inl OutOfBounds)"

definition getIndex :: "int \<Rightarrow> int \<Rightarrow> int \<Rightarrow> int \<times> int \<times> int \<Rightarrow> int" where
  "getIndex x y z dims = (case dims of (d0, d1, d2) \<Rightarrow> x + y * d0 + z * d0 * d1)"

text \<open>
  \<open>triTable\<close> is declared \<open>const int triTable[256][16]\<close>. Its initializer lists 17
  rows: the rows of the cube indices 0 to 15 and one row of sixteen \<open>-1\<close>, commented
  \<open>Case 16...\<close>. The 239 rows that the initializer leaves out are zero-initialized, as
  C++ does for the missing elements of an aggregate. (\<open>edgeTable\<close> is complete, and
  \<open>extractSurface\<close> does not read it.)
\<close>

definition triTable :: "int list list" where
  "triTable =
    [[-1, -1, -1, -1, -1, -1, -1, -1, -1, -1, -1, -1, -1, -1, -1, -1],
     [0, 8, 3, -1, -1, -1, -1, -1, -1, -1, -1, -1, -1, -1, -1, -1],
     [0, 1, 9, -1, -1, -1, -1, -1, -1, -1, -1, -1, -1, -1, -1, -1],
     [1, 8, 3, 9, 8, 1, -1, -1, -1, -1, -1, -1, -1, -1, -1, -1],
     [1, 2, 10, -1, -1, -1, -1, -1, -1, -1, -1, -1, -1, -1, -1, -1],
     [0, 8, 3, 1, 2, 10, -1, -1, -1, -1, -1, -1, -1, -1, -1, -1],
     [9, 2, 10, 0, 2, 9, -1, -1, -1, -1, -1, -1, -1, -1, -1, -1],
     [2, 8, 3, 2, 10, 8, 10, 9, 8, -1, -1, -1, -1, -1, -1, -1],
     [3, 11, 2, -1, -1, -1, -1, -1, -1, -1, -1, -1, -1, -1, -1, -1],
     [0, 11, 2, 8, 11, 0, -1, -1, -1, -1, -1, -1, -1, -1, -1, -1],
     [1, 9, 0, 2, 3, 11, -1, -1, -1, -1, -1, -1, -1, -1, -1, -1],
     [1, 11, 2, 1, 9, 11, 9, 8, 11, -1, -1, -1, -1, -1, -1, -1],
     [3, 10, 1, 11, 10, 3, -1, -1, -1, -1, -1, -1, -1, -1, -1, -1],
     [0, 10, 1, 0, 8, 10, 8, 11, 10, -1, -1, -1, -1, -1, -1, -1],
     [3, 9, 0, 3, 11, 9, 11, 10, 9, -1, -1, -1, -1, -1, -1, -1],
     [9, 8, 10, 10, 8, 11, -1, -1, -1, -1, -1, -1, -1, -1, -1, -1],
     [-1, -1, -1, -1, -1, -1, -1, -1, -1, -1, -1, -1, -1, -1, -1, -1]]
    @ replicate 239 (replicate 16 0)"

text \<open>The loop \<open>for (int i = 0; i < 8; ++i) if (values[i] < level) cubeIndex |= (1 << i)\<close>;
  \<open>values\<close> is a \<open>std::array\<close> of eight entries.\<close>

definition cubeIndex_of :: "real list \<Rightarrow> real \<Rightarrow> int" where
  "cubeIndex_of values level =
     fold (\<lambda>i cubeIndex. if values ! i < level then or cubeIndex (push_bit i 1) else cubeIndex)
          [0 ..< 8] 0"

text \<open>
  The loop \<open>for (int i = 0; triIndices[i] != -1; i += 3)\<close> with its three
  \<open>push_back(edgeVertices[triIndices[i + j]])\<close>. \<open>triIndices\<close> points to a row of 16
  entries and \<open>edgeVertices\<close> has 12: a read outside either is \<open>OutOfBounds\<close>.
\<close>

function emit_triangles ::
  "int list \<Rightarrow> Vector3 list \<Rightarrow> nat \<Rightarrow> Vector3 list \<Rightarrow> error + Vector3 list" where
  "emit_triangles triIndices edgeVertices i triangles =
     (if length triIndices \<le> i then Inl OutOfBounds
      else if triIndices ! i = - 1 then Inr triangles
      else
        (case collect (\<lambda>j. ebind (read_at triIndices j) (read_at_int edgeVertices))
                [i, i + 1, i + 2] of
           Inl e \<Rightarrow> Inl e
         | Inr pushed \<Rightarrow> emit_triangles triIndices edgeVertices (i + 3) (triangles @ pushed)))"
  by pat_completeness auto
termination
  by (relation "measure (\<lambda>(triIndices, edgeVertices, i, triangles). length triIndices - i)") auto

declare emit_triangles.simps [simp del]

text \<open>The corner offsets and the corner pairs of the twelve edges, in the order of the
  assignments to \<open>corners\<close>, \<open>values\<close> and \<open>edgeVertices\<close>.\<close>

definition corner_offsets :: "(int \<times> int \<times> int) list" where
  "corner_offsets =
     [(0, 0, 0), (1, 0, 0), (1, 1, 0), (0, 1, 0), (0, 0, 1), (1, 0, 1), (1, 1, 1), (0, 1, 1)]"

definition edge_corners :: "(nat \<times> nat) list" where
  "edge_corners =
     [(0, 1), (1, 2), (2, 3), (3, 0), (4, 5), (5, 6), (6, 7), (7, 4),
      (0, 4), (1, 5), (2, 6), (3, 7)]"

text \<open>The body of the innermost loop of \<open>extractSurface\<close> for the cell \<open>(x, y, z)\<close>: the
  triangle vertices it appends.\<close>

definition cell_triangles ::
  "real list \<Rightarrow> int \<times> int \<times> int \<Rightarrow> real \<Rightarrow> int \<Rightarrow> int \<Rightarrow> int \<Rightarrow> error + Vector3 list" where
  "cell_triangles volume dims level x y z =
     (let corners = map (\<lambda>(dx, dy, dz).
                      Vector3 (of_int (x + dx)) (of_int (y + dy)) (of_int (z + dz)))
                    corner_offsets
      in ebind (collect (\<lambda>(dx, dy, dz).
                  read_at_int volume (getIndex (x + dx) (y + dy) (z + dz) dims))
                corner_offsets) (\<lambda>values.
         let cubeIndex = cubeIndex_of values level
         in if cubeIndex = 0 \<or> cubeIndex = 255 then Inr []
            else ebind (collect (\<lambda>(c1, c2).
                          vertexInterp level (corners ! c1) (corners ! c2)
                                             (values ! c1) (values ! c2))
                        edge_corners) (\<lambda>edgeVertices.
                 ebind (read_at_int triTable cubeIndex) (\<lambda>triIndices.
                   emit_triangles triIndices edgeVertices 0 []))))"

definition extractSurface ::
  "real list \<Rightarrow> int \<times> int \<times> int \<Rightarrow> real \<Rightarrow> error + Vector3 list" where
  "extractSurface volume dims level =
     (case dims of (d0, d1, d2) \<Rightarrow>
        ebind (collect (\<lambda>(z, y, x). cell_triangles volume dims level x y z)
                 (concat (map (\<lambda>z. concat (map (\<lambda>y. map (\<lambda>x. (z, y, x)) [0 .. d0 - 2])
                                                  [0 .. d1 - 2]))
                              [0 .. d2 - 2])))
              (\<lambda>cells. Inr (concat cells)))"

subsection \<open>Bounds estimator (src/MeshGenerator.cpp)\<close>

text \<open>The local constant \<open>samples = 16\<close> of \<open>estimateBounds\<close>.\<close>

definition estimate_samples :: int where
  "estimate_samples = 16"

text \<open>The three nested loops that fill \<open>points\<close>, \<open>z\<close> outermost.\<close>

definition sample_points :: "Vector3 \<Rightarrow> Vector3 \<Rightarrow> Vector3 list" where
  "sample_points boundsMin step =
     concat (map (\<lambda>z. concat (map (\<lambda>y. map (\<lambda>x.
         Vector3 (vx boundsMin + of_int x * vx step)
                 (vy boundsMin + of_int y * vy step)
                 (vz boundsMin + of_int z * vz step))
       [0 .. estimate_samples - 1]) [0 .. estimate_samples - 1])) [0 .. estimate_samples - 1])"

text \<open>The loop \<open>for (size_t i = 0; i < points.size(); ++i)\<close> over
  \<open>(newMin, newMax, foundAny)\<close>; it reads \<open>values[i]\<close> for every point.\<close>

fun scan_near ::
  "real \<Rightarrow> Vector3 list \<Rightarrow> real list \<Rightarrow> Vector3 \<times> Vector3 \<times> bool
     \<Rightarrow> error + Vector3 \<times> Vector3 \<times> bool" where
  "scan_near threshold [] values acc = Inr acc"
| "scan_near threshold (p # points) [] acc = Inl OutOfBounds"
| "scan_near threshold (p # points) (v # values) (newMin, newMax, foundAny) =
     scan_near threshold points values
       (if \<bar>v\<bar> \<le> threshold then (vmin newMin p, vmax newMax p, True)
        else (newMin, newMax, foundAny))"

text \<open>One pass through the body of the \<open>for\<close> loop: either the \<open>break\<close>, or the next
  values of \<open>boundsMin\<close>, \<open>boundsMax\<close> and \<open>prevThreshold\<close>.\<close>

datatype loop_step = Break | Continue Vector3 Vector3 real

definition estimate_body :: "SDF3 \<Rightarrow> Vector3 \<Rightarrow> Vector3 \<Rightarrow> real \<Rightarrow> error + loop_step" where
  "estimate_body sdf boundsMin boundsMax prevThreshold =
     (let step = sdiv (vsub boundsMax boundsMin) (of_int (estimate_samples - 1));
          threshold = vlength step / 2
      in if \<bar>threshold - prevThreshold\<bar> < 1 / 10 ^ 10 then Inr Break
         else
           (let points = sample_points boundsMin step
            in ebind (evaluate sdf points) (\<lambda>values.
               ebind (scan_near threshold points values (boundsMax, boundsMin, False))
                 (\<lambda>(newMin, newMax, foundAny).
                    if \<not> foundAny then
                      (let center = smul (vadd boundsMin boundsMax) 0.5;
                           size = vsub boundsMax boundsMin
                       in Inr (Continue (vsub center size) (vadd center size) threshold))
                    else
                      (let margin = smul step 0.5
                       in Inr (Continue (vsub newMin margin) (vadd newMax margin)
                                 threshold))))))"

text \<open>The loop \<open>for (int iteration = 0; iteration < 32; ++iteration)\<close>. The result carries
  the final value of \<open>iteration\<close> next to the box.\<close>

function estimate_loop ::
  "SDF3 \<Rightarrow> nat \<Rightarrow> Vector3 \<Rightarrow> Vector3 \<Rightarrow> real \<Rightarrow> error + nat \<times> Vector3 \<times> Vector3" where
  "estimate_loop sdf iteration boundsMin boundsMax prevThreshold =
     (if iteration < 32 then
        (case estimate_body sdf boundsMin boundsMax prevThreshold of
           Inl e \<Rightarrow> Inl e
         | Inr Break \<Rightarrow> Inr (iteration, boundsMin, boundsMax)
         | Inr (Continue newMin newMax threshold) \<Rightarrow>
             estimate_loop sdf (iteration + 1) newMin newMax threshold)
      else Inr (iteration, boundsMin, boundsMax))"
  by pat_completeness auto
termination
  by (relation "measure (\<lambda>(sdf, iteration, boundsMin, boundsMax, prevThreshold). 32 - iteration)")
     auto

declare estimate_loop.simps [simp del]

definition estimateBounds :: "SDF3 \<Rightarrow> error + Vector3 \<times> Vector3" where
  "estimateBounds sdf =
     ebind (estimate_loop sdf 0 (Vector3 (- 10) (- 10) (- 10)) (Vector3 10 10 10) (- 1))
       (\<lambda>(iteration, boundsMin, boundsMax). Inr (boundsMin, boundsMax))"

subsection \<open>Predicates used in the statements\<close>

text \<open>The batch invariant of a field: one distance per point, and no failure.\<close>

definition batch_preserving :: "SDF3 \<Rightarrow> bool" where
  "batch_preserving f \<longleftrightarrow> (\<forall>P. \<exists>vs. evaluate f P = Inr vs \<and> length vs = length P)"

text \<open>Componentwise order, and a box \<open>lo \<le> hi\<close> inside the cube \<open>[-B, B]\<^sup>3\<close>.\<close>

definition vle :: "Vector3 \<Rightarrow> Vector3 \<Rightarrow> bool" where
  "vle a b \<longleftrightarrow> vx a \<le> vx b \<and> vy a \<le> vy b \<and> vz a \<le> vz b"

definition box_within :: "real \<Rightarrow> Vector3 \<Rightarrow> Vector3 \<Rightarrow> bool" where
  "box_within B lo hi \<longleftrightarrow> vle (Vector3 (- B) (- B) (- B)) lo \<and> vle lo hi \<and> vle hi (Vector3 B B B)"

text \<open>A field that is 5 everywhere: no surface anywhere near.\<close>

definition far_field :: SDF3 where
  "far_field = SDF3_of_Function (\<lambda>p. 5)"

subsection \<open>Mesh generation (include/sdf/MeshGenerator.h, src/MeshGenerator.cpp)\<close>

text \<open>\<open>plane(normal, point)\<close> of src/Primitives.cpp.\<close>

definition plane :: "Vector3 \<Rightarrow> Vector3 \<Rightarrow> SDF3" where
  "plane normal point =
     (let n = normalized normal
      in SDF3_of_Function (\<lambda>p. dot (vsub p point) n))"

text \<open>\<open>MeshGenerator::Options\<close>; the member \<open>step\<close> is the field \<open>opt_step\<close>, and so on.\<close>

record Options =
  opt_step :: real
  opt_boundsMin :: Vector3
  opt_boundsMax :: Vector3
  opt_customBounds :: bool
  opt_samples :: int
  opt_workers :: int
  opt_batchSize :: int
  opt_verbose :: bool
  opt_sparse :: bool

text \<open>The step of \<open>generate\<close> (\<open>// Calculate step size\<close>): \<open>options.step\<close>, replaced by
  the cube root of volume over samples when it is zero and \<open>samples > 0\<close>, and by the
  constant 0.1 when it is still zero after that.\<close>

definition calc_step :: "Options \<Rightarrow> Vector3 \<Rightarrow> Vector3 \<Rightarrow> real" where
  "calc_step options boundsMin boundsMax =
     (let step0 = opt_step options;
          step1 = (if step0 = 0 \<and> opt_samples options > 0 then
                     (let volume = (vx boundsMax - vx boundsMin) *
                                   (vy boundsMax - vy boundsMin) *
                                   (vz boundsMax - vz boundsMin)
                      in root 3 (volume / of_int (opt_samples options)))
                   else step0)
      in if step1 = 0 then 0.1 else step1)"

text \<open>The counter values of \<open>for (int v = v0; v < limit; v += batchSize)\<close> for a positive
  \<open>batchSize\<close>.\<close>

function batch_starts :: "int \<Rightarrow> int \<Rightarrow> int \<Rightarrow> int list" where
  "batch_starts v limit batchSize =
     (if v < limit \<and> 0 < batchSize then v # batch_starts (v + batchSize) limit batchSize
      else [])"
  by pat_completeness auto
termination
  by (relation "measure (\<lambda>(v, limit, batchSize). nat (limit - v))") auto

declare batch_starts.simps [simp del]

text \<open>The three nested loops that fill \<open>batches\<close>. When the outer loop is entered with
  \<open>batchSize \<le> 0\<close>, no counter ever reaches its limit.\<close>

type_synonym batch = "int \<times> int \<times> int \<times> int \<times> int \<times> int"

definition make_batches :: "int \<Rightarrow> int \<Rightarrow> int \<Rightarrow> int \<Rightarrow> error + batch list" where
  "make_batches nx ny nz batchSize =
     (if 0 < nz - 1 \<and> batchSize \<le> 0 then Inl NonTermination
      else Inr (concat (map (\<lambda>z. concat (map (\<lambda>y. map (\<lambda>x.
                  (x, min (x + batchSize) (nx - 1),
                   y, min (y + batchSize) (ny - 1),
                   z, min (z + batchSize) (nz - 1)))
                (batch_starts 0 (nx - 1) batchSize))
                (batch_starts 0 (ny - 1) batchSize)))
                (batch_starts 0 (nz - 1) batchSize))))"

text \<open>The body of the loop of \<open>processBatchRange\<close> for one batch: the world-space
  triangle vertices it appends to \<open>localTriangles\<close>.\<close>

definition process_batch ::
  "SDF3 \<Rightarrow> Options \<Rightarrow> Vector3 \<Rightarrow> real \<Rightarrow> batch \<Rightarrow> error + Vector3 list" where
  "process_batch sdf options boundsMin step b =
     (case b of (x0, x1, y0, y1, z0, z1) \<Rightarrow>
        let batchMin = Vector3 (vx boundsMin + of_int x0 * step)
                               (vy boundsMin + of_int y0 * step)
                               (vz boundsMin + of_int z0 * step);
            batchMax = Vector3 (vx boundsMin + of_int x1 * step)
                               (vy boundsMin + of_int y1 * step)
                               (vz boundsMin + of_int z1 * step)
        in ebind (if opt_sparse options then canSkipBatch sdf batchMin batchMax else Inr False)
             (\<lambda>skip.
                if skip then Inr []
                else
                  (let batchNx = x1 - x0 + 1;
                       batchNy = y1 - y0 + 1;
                       batchNz = z1 - z0 + 1;
                       gridPoints =
                         concat (map (\<lambda>bz. concat (map (\<lambda>bY. map (\<lambda>bx.
                             Vector3 (vx boundsMin + of_int (x0 + bx) * step)
                                     (vy boundsMin + of_int (y0 + bY) * step)
                                     (vz boundsMin + of_int (z0 + bz) * step))
                           [0 .. batchNx - 1]) [0 .. batchNy - 1])) [0 .. batchNz - 1])
                   in ebind (evaluate sdf gridPoints) (\<lambda>vals.
                      ebind (extractSurface vals (batchNx, batchNy, batchNz) 0)
                        (\<lambda>batchTriangles.
                           let scale = Vector3 step step step;
                               offset = batchMin
                           in Inr (map (\<lambda>v. vadd (vmul v scale) offset) batchTriangles))))))"

text \<open>\<open>processBatchRange(start, end)\<close>: the batches \<open>start \<le> i < end\<close> in order.\<close>

definition processBatchRange ::
  "SDF3 \<Rightarrow> Options \<Rightarrow> Vector3 \<Rightarrow> real \<Rightarrow> batch list \<Rightarrow> int \<Rightarrow> int \<Rightarrow> error + Vector3 list" where
  "processBatchRange sdf options boundsMin step batches start end =
     ebind (collect (\<lambda>i. ebind (read_at_int batches i) (process_batch sdf options boundsMin step))
              [start .. end - 1])
       (\<lambda>localTriangles. Inr (concat localTriangles))"

text \<open>The worker count: \<open>options.workers\<close>, or the hardware concurrency when that is 0,
  or 4 when the hardware concurrency is unknown.\<close>

definition worker_count :: "nat \<Rightarrow> Options \<Rightarrow> int" where
  "worker_count hardware_concurrency options =
     (if opt_workers options = 0 then
        (if int hardware_concurrency = 0 then 4 else int hardware_concurrency)
      else opt_workers options)"

text \<open>
  \<open>MeshGenerator::generate\<close>. The hardware concurrency is a parameter. Each worker thread
  appends its triangles to the result when it is done; the model appends them in the
  order of the workers, which is one of the orders the threads can produce. The console
  output under \<open>verbose\<close> and the two counters that only feed it are left out. The
  source also snaps \<open>boundsMax\<close> to the grid and never reads it afterwards.
\<close>

definition generate :: "nat \<Rightarrow> SDF3 \<Rightarrow> Options \<Rightarrow> error + Vector3 list" where
  "generate hardware_concurrency sdf options =
     ebind (if opt_customBounds options
            then Inr (opt_boundsMin options, opt_boundsMax options)
            else estimateBounds sdf)
       (\<lambda>(boundsMin, boundsMax).
          let step = calc_step options boundsMin boundsMax;
              nx = \<lceil>(vx boundsMax - vx boundsMin) / step\<rceil> + 1;
              ny = \<lceil>(vy boundsMax - vy boundsMin) / step\<rceil> + 1;
              nz = \<lceil>(vz boundsMax - vz boundsMin) / step\<rceil> + 1
          in ebind (make_batches nx ny nz (opt_batchSize options)) (\<lambda>batches.
               let workers = worker_count hardware_concurrency options;
                   batchesPerWorker = (int (length batches) + workers - 1) div workers
               in ebind (collect (\<lambda>i.
                           let start = i * batchesPerWorker;
                               end = min (start + batchesPerWorker) (int (length batches))
                           in if start < end
                              then processBatchRange sdf options boundsMin step batches start end
                              else Inr [])
                         [0 .. workers - 1])
                    (\<lambda>allTriangles. Inr (concat allTriangles))))"

text \<open>A run with the fallback step: custom bounds \<open>[0, 0.1]\<^sup>3\<close>, \<open>step = 0\<close>,
  \<open>samples = 0\<close>, the other options at their defaults, on the plane \<open>z = 0.05\<close>.\<close>

definition demo_options :: Options where
  "demo_options = \<lparr> opt_step = 0, opt_boundsMin = Vector3 0 0 0,
      opt_boundsMax = Vector3 (1 / 10) (1 / 10) (1 / 10), opt_customBounds = True,
      opt_samples = 0, opt_workers = 0, opt_batchSize = 32, opt_verbose = True,
      opt_sparse = True \<rparr>"

definition demo_plane :: SDF3 where
  "demo_plane = plane (Vector3 0 0 1) (Vector3 0 0 (1 / 20))"

section \<open>Properties\<close>

text \<open>
  C9. The default-constructed \<open>SDF3\<close> answers every batch with the empty list, so the
  result is shorter than any non-empty batch, and the single-point call returns 0.
\<close>

theorem default_sdf_evaluates_to_empty:
  "evaluate SDF3_default P = Inr []
   \<and> (P \<noteq> [] \<longrightarrow> (\<forall>vs. evaluate SDF3_default P = Inr vs \<longrightarrow> length vs \<noteq> length P))
   \<and> call SDF3_default p = Inr 0"
  by (simp add: evaluate_def SDF3_default_def call_def)

theorem default_sdf_evaluates_to_empty_witness:
  "evaluate SDF3_default [Vector3 1 2 3] = Inr []
   \<and> length ([] :: real list) \<noteq> length [Vector3 1 2 3]
   \<and> call SDF3_default (Vector3 1 2 3) = Inr 0"
  using default_sdf_evaluates_to_empty [of "[Vector3 1 2 3]" "Vector3 1 2 3"] by simp


subsection \<open>Helper facts about concrete fields\<close>

lemma vlength_on_x_axis: "vlength (Vector3 a 0 0) = \<bar>a\<bar>"
  by (simp add: vlength_def)

lemma sphere_on_x_axis:
  "evaluate (sphere r (Vector3 c 0 0)) [Vector3 a 0 0] = Inr [\<bar>a - c\<bar> - r]"
  by (simp add: evaluate_def sphere_def SDF3_of_Function_def wrapFunction_def vsub_def
      vlength_on_x_axis)

lemma call_sphere_on_x_axis:
  "call (sphere r (Vector3 c 0 0)) (Vector3 a 0 0) = Inr (\<bar>a - c\<bar> - r)"
  using sphere_on_x_axis [of r c a] by (simp add: call_def evaluate_def)

lemma getK_sphere: "getK (sphere r c) = 0"
  by (simp add: sphere_def SDF3_of_Function_def)

lemma evaluate_SDF3_k: "evaluate (SDF3_k f k) P = evaluate f P"
  by (simp add: evaluate_def SDF3_k_def)

lemma getK_SDF3_k: "getK (SDF3_k f k) = k"
  by (simp add: SDF3_k_def)

subsection \<open>Union\<close>

text \<open>
  C3, as the code has it. The union operator takes \<open>k = max(k_a, k_b)\<close> from the
  operands' tags. At a point \<open>p\<close> for which each operand returns its one distance, \<open>da\<close>
  and \<open>db\<close>, the union returns \<open>min da db\<close> when \<open>k = 0\<close>, and
  \<open>db (1 - h) + da h - k h (1 - h)\<close> with \<open>h = clamp (0.5 + 0.5 (db - da) / k, 0, 1)\<close>
  when \<open>k > 0\<close>.
\<close>

theorem union_formula:
  assumes "evaluate a [p] = Inr [da]" and "evaluate b [p] = Inr [db]"
  shows "let k = max (getK a) (getK b) in
           (k = 0 \<longrightarrow> call (SDF3_union a b) p = Inr (min da db)) \<and>
           (k > 0 \<longrightarrow> call (SDF3_union a b) p =
              Inr (let h = clamp (0.5 + 0.5 * (db - da) / k) 0 1
                   in db * (1 - h) + da * h - k * h * (1 - h)))"
  using assms
  by (simp add: Let_def call_def SDF3_union_def SDF3_of_VectorFunction_def union_closure_def
      evaluate_def ebind_def read_at_def)

theorem union_formula_witness:
  "call (SDF3_union (sphere 1 (Vector3 0 0 0)) (sphere 1 (Vector3 3 0 0))) (Vector3 2 0 0) = Inr 0
   \<and> call (SDF3_union (SDF3_k (sphere 1 (Vector3 0 0 0)) 2) (sphere 1 (Vector3 3 0 0)))
        (Vector3 2 0 0) = Inr (- 1 / 8)"
proof -
  have a: "evaluate (sphere 1 (Vector3 0 0 0)) [Vector3 2 0 0] = Inr [1]"
    by (simp add: sphere_on_x_axis)
  have a': "evaluate (SDF3_k (sphere 1 (Vector3 0 0 0)) 2) [Vector3 2 0 0] = Inr [1]"
    by (simp add: sphere_on_x_axis evaluate_SDF3_k)
  have b: "evaluate (sphere 1 (Vector3 3 0 0)) [Vector3 2 0 0] = Inr [0]"
    by (simp add: sphere_on_x_axis)
  show ?thesis
    using union_formula [OF a b] union_formula [OF a' b]
    by (simp add: getK_sphere getK_SDF3_k clamp_def)
qed

text \<open>The loop of the union reads \<open>a[i]\<close> and \<open>b[i]\<close> unchecked. The default-constructed
  field returns no distance, and the read of \<open>a[0]\<close> leaves the empty vector.\<close>

lemma union_of_default_overruns:
  "call (SDF3_union SDF3_default b) p =
     (case evaluate b [p] of Inl e \<Rightarrow> Inl e | Inr bs \<Rightarrow> Inl OutOfBounds)"
  by (simp add: call_def SDF3_union_def SDF3_default_def SDF3_of_VectorFunction_def
      union_closure_def ebind_def read_at_def evaluate_def Let_def split: sum.splits)

text \<open>The claim as stated, for all fields, fails: with the default-constructed field as the
  left operand and the unit sphere as the right one, \<open>k\<close> is 0, the operands answer 0 and
  1 at \<open>(2, 0, 0)\<close>, and the union does not return their minimum.\<close>

theorem union_default_counterexample:
  "max (getK SDF3_default) (getK (sphere 1 (Vector3 0 0 0))) = 0
   \<and> call SDF3_default (Vector3 2 0 0) = Inr 0
   \<and> call (sphere 1 (Vector3 0 0 0)) (Vector3 2 0 0) = Inr 1
   \<and> call (SDF3_union SDF3_default (sphere 1 (Vector3 0 0 0))) (Vector3 2 0 0)
       = Inl OutOfBounds"
  by (simp add: union_of_default_overruns sphere_on_x_axis call_sphere_on_x_axis getK_sphere)
     (simp add: SDF3_default_def call_def)

text \<open>The smooth form on two real distances never exceeds the smaller one.\<close>

lemma smooth_union_le:
  fixes a b k :: real
  assumes k: "k > 0"
  shows "(let h = clamp (0.5 + 0.5 * (b - a) / k) 0 1
          in b * (1 - h) + a * h - k * h * (1 - h)) \<le> min a b"
proof -
  define t where "t = 0.5 + 0.5 * (b - a) / k"
  have ba: "b - a = k * (2 * t - 1)"
    using k by (simp add: t_def field_simps)
  consider "t \<le> 0" | "1 \<le> t" | "0 < t" "t < 1" by linarith
  then have "b * (1 - clamp t 0 1) + a * clamp t 0 1 - k * clamp t 0 1 * (1 - clamp t 0 1)
             \<le> min a b"
  proof cases
    case 1
    then have h: "clamp t 0 1 = 0" by (simp add: clamp_def)
    have "k * (2 * t - 1) \<le> 0" using k 1 by (simp add: mult_nonneg_nonpos)
    then have "b \<le> a" using ba by linarith
    then show ?thesis by (simp add: h)
  next
    case 2
    then have h: "clamp t 0 1 = 1" by (simp add: clamp_def)
    have "0 \<le> k * (2 * t - 1)" using k 2 by simp
    then have "a \<le> b" using ba by linarith
    then show ?thesis by (simp add: h)
  next
    case 3
    then have h: "clamp t 0 1 = t" by (simp add: clamp_def)
    have b_eq: "b = a + k * (2 * t - 1)" using ba by linarith
    have d1: "b * (1 - t) + a * t - k * t * (1 - t) = b - k * t\<^sup>2"
      by (subst (2) b_eq, subst b_eq) (simp add: algebra_simps power2_eq_square)
    have d2: "b * (1 - t) + a * t - k * t * (1 - t) = a - k * (1 - t)\<^sup>2"
      by (subst b_eq) (simp add: algebra_simps power2_eq_square)
    have "0 \<le> k * t\<^sup>2" "0 \<le> k * (1 - t)\<^sup>2" using k by simp_all
    then have "b * (1 - t) + a * t - k * t * (1 - t) \<le> b"
         "b * (1 - t) + a * t - k * t * (1 - t) \<le> a"
      using d1 d2 by linarith+
    then show ?thesis by (simp add: h)
  qed
  then show ?thesis by (simp add: t_def Let_def)
qed

text \<open>
  C4. For \<open>k > 0\<close> the smooth union \<open>unionOp(a, b, k)\<close> returns, at every point where
  the operands return the distances \<open>da\<close> and \<open>db\<close>, a distance that is at most
  \<open>min da db\<close>.
\<close>

theorem smooth_union_bound:
  assumes "k > 0" and "evaluate a [p] = Inr [da]" and "evaluate b [p] = Inr [db]"
  shows "\<exists>d. call (unionOp a b k) p = Inr d \<and> d \<le> min da db"
proof -
  have "call (unionOp a b k) p =
      Inr (let h = clamp (0.5 + 0.5 * (db - da) / k) 0 1
           in db * (1 - h) + da * h - k * h * (1 - h))"
    using assms
    by (simp add: Let_def call_def unionOp_def SDF3_k_def SDF3_union_def
        SDF3_of_VectorFunction_def union_closure_def evaluate_def ebind_def read_at_def)
  then show ?thesis using smooth_union_le [OF assms(1), of db da] by simp
qed

theorem smooth_union_bound_witness:
  "\<exists>d. call (unionOp (sphere 1 (Vector3 0 0 0)) (sphere 1 (Vector3 3 0 0)) 2) (Vector3 2 0 0)
         = Inr d \<and> d \<le> 0"
proof -
  have k: "(0::real) < 2" by simp
  have a: "evaluate (sphere 1 (Vector3 0 0 0)) [Vector3 2 0 0] = Inr [1]"
    by (simp add: sphere_on_x_axis)
  have b: "evaluate (sphere 1 (Vector3 3 0 0)) [Vector3 2 0 0] = Inr [0]"
    by (simp add: sphere_on_x_axis)
  show ?thesis using smooth_union_bound [OF k a b] by simp
qed

subsection \<open>Uniform scale\<close>

text \<open>
  C5. For \<open>s > 0\<close>, \<open>scale(f, s)\<close> at \<open>p\<close> is \<open>s\<close> times \<open>f\<close> at \<open>p / s\<close>; a failure of
  \<open>f\<close> is passed on unchanged.
\<close>

theorem scale_formula:
  assumes "s > 0"
  shows "call (scale f s) p =
           (case call f (sdiv p s) of Inl e \<Rightarrow> Inl e | Inr d \<Rightarrow> Inr (s * d))"
  by (cases "vecFunc f [sdiv p s]")
     (auto simp add: call_def scale_def SDF3_of_VectorFunction_def ebind_def Let_def hd_map)

theorem scale_formula_witness:
  "call (scale (sphere 1 (Vector3 0 0 0)) 2) (Vector3 4 0 0) = Inr 2"
proof -
  have s: "(0::real) < 2" by simp
  show ?thesis
    using scale_formula [OF s, of "sphere 1 (Vector3 0 0 0)" "Vector3 4 0 0"]
    by (simp add: sdiv_def call_sphere_on_x_axis)
qed

subsection \<open>Edge interpolation\<close>

text \<open>
  C6. \<open>vertexInterp\<close> returns \<open>p1\<close> if \<open>|iso - v1| < 1e-10\<close>, else \<open>p2\<close> if
  \<open>|iso - v2| < 1e-10\<close>, else \<open>p1\<close> if \<open>|v1 - v2| < 1e-10\<close>, and otherwise
  \<open>p1 + (p2 - p1) mu\<close> with \<open>mu = (iso - v1) / (v2 - v1)\<close>. It never fails: the quotient
  is only formed behind the three guards, where the divisor is not zero.
\<close>

theorem vertexInterp_cases:
  "vertexInterp isolevel p1 p2 v1 v2 =
     Inr (if \<bar>isolevel - v1\<bar> < 1 / 10 ^ 10 then p1
          else if \<bar>isolevel - v2\<bar> < 1 / 10 ^ 10 then p2
          else if \<bar>v1 - v2\<bar> < 1 / 10 ^ 10 then p1
          else vadd p1 (smul (vsub p2 p1) ((isolevel - v1) / (v2 - v1))))"
  by (auto simp add: vertexInterp_def checked_div_def ebind_def)

subsection \<open>Sparse skip test\<close>

lemma sign_flags_eq:
  "sign_flags vs (ap, an) = (ap \<and> (\<forall>v\<in>set vs. 0 \<le> v), an \<and> (\<forall>v\<in>set vs. v \<le> 0))"
  by (induction vs arbitrary: ap an) (auto simp: not_less)

text \<open>What the test computes: the centre is farther from the surface than the radius, and
  no corner value is negative or no corner value is positive. A corner value of exactly
  zero clears neither flag.\<close>

lemma canSkipBatch_iff:
  "canSkipBatch f batchMin batchMax = Inr True \<longleftrightarrow>
     (\<exists>d vs. call f (smul (vadd batchMin batchMax) 0.5) = Inr d
        \<and> \<bar>d\<bar> > vlength (vsub batchMax batchMin) / 2
        \<and> evaluate f (batch_corners batchMin batchMax) = Inr vs
        \<and> ((\<forall>v\<in>set vs. 0 \<le> v) \<or> (\<forall>v\<in>set vs. v \<le> 0)))"
  by (auto simp add: canSkipBatch_def Let_def ebind_def sign_flags_eq not_le
      split: sum.splits)

lemma stretched_sphere_evaluate:
  "evaluate stretched_sphere P
     = Inr (map (\<lambda>p. sqrt (100 * (vx p)\<^sup>2 + (vy p)\<^sup>2 + (vz p)\<^sup>2) - 1) P)"
  by (simp add: stretched_sphere_def scale_Vector3_def sphere_def SDF3_of_Function_def
      SDF3_of_VectorFunction_def wrapFunction_def evaluate_def vdiv_def vsub_def vlength_def
      power2_eq_square comp_def)

lemma stretched_sphere_call:
  "call stretched_sphere p = Inr (sqrt (100 * (vx p)\<^sup>2 + (vy p)\<^sup>2 + (vz p)\<^sup>2) - 1)"
  using stretched_sphere_evaluate [of "[p]"] by (simp add: call_def evaluate_def)

lemma stretched_centre_far: "sqrt 12 / 2 < sqrt 123 - 1"
proof -
  have "sqrt 12 < 4" by (rule real_less_lsqrt) simp_all
  moreover have "11 < sqrt 123" by (rule real_less_rsqrt) simp
  ultimately show ?thesis by simp
qed

text \<open>
  C2. The claim asks that a batch with a corner distance of exactly zero is never
  skipped. Take the squeezed sphere and the box from \<open>(0.1, 0, 0)\<close> to \<open>(2.1, 2, 2)\<close>.
  The corner \<open>(0.1, 0, 0)\<close> lies on the surface (distance 0), the other corners are
  outside, and the centre value \<open>sqrt 123 - 1\<close> exceeds the radius \<open>sqrt 12 / 2\<close>: the
  batch is skipped.
\<close>

theorem canSkipBatch_skips_zero_corner:
  "canSkipBatch stretched_sphere (Vector3 (1 / 10) 0 0) (Vector3 (21 / 10) 2 2) = Inr True
   \<and> call stretched_sphere (Vector3 (1 / 10) 0 0) = Inr 0"
proof -
  have c: "call stretched_sphere (smul (vadd (Vector3 (1 / 10) 0 0) (Vector3 (21 / 10) 2 2)) 0.5)
             = Inr (sqrt 123 - 1)"
    by (simp add: stretched_sphere_call smul_def vadd_def power2_eq_square)
  have r: "vlength (vsub (Vector3 (21 / 10) 2 2) (Vector3 (1 / 10) 0 0)) / 2 = sqrt 12 / 2"
    by (simp add: vlength_def vsub_def)
  have pos: "\<forall>v\<in>set (map (\<lambda>p. sqrt (100 * (vx p)\<^sup>2 + (vy p)\<^sup>2 + (vz p)\<^sup>2) - 1)
                  (batch_corners (Vector3 (1 / 10) 0 0) (Vector3 (21 / 10) 2 2))). 0 \<le> v"
    by (simp add: batch_corners_def power2_eq_square)
  have far: "\<bar>sqrt 123 - 1\<bar> > sqrt 12 / 2"
    using stretched_centre_far by linarith
  have "canSkipBatch stretched_sphere (Vector3 (1 / 10) 0 0) (Vector3 (21 / 10) 2 2) = Inr True"
    unfolding canSkipBatch_iff r using c far pos stretched_sphere_evaluate by blast
  moreover have "call stretched_sphere (Vector3 (1 / 10) 0 0) = Inr 0"
    by (simp add: stretched_sphere_call power2_eq_square)
  ultimately show ?thesis by simp
qed

subsection \<open>Rotate and orient with a vanishing axis\<close>

lemma normalized_tiny: "vlength axis < 1 / 10 ^ 10 \<Longrightarrow> normalized axis = Vector3 0 0 0"
  by (simp add: normalized_def)

lemma rotatePoint_zero_axis: "rotatePoint (Vector3 0 0 0) c s t = (\<lambda>p. smul p c)"
  by (rule ext) (simp add: rotatePoint_def smul_def)

lemma rotate_zero_axis:
  "normalized axis = Vector3 0 0 0 \<Longrightarrow>
   evaluate (rotate f angle axis) P = evaluate f (map (\<lambda>p. smul p (cos angle)) P)"
  by (simp add: rotate_def Let_def evaluate_def SDF3_of_VectorFunction_def rotatePoint_zero_axis)

lemma orient_zero_axis:
  "normalized axis = Vector3 0 0 0 \<Longrightarrow> orient f axis = rotate f (arccos 0) (Vector3 0 0 0)"
  by (simp add: orient_def Let_def Z_def vsub_def vadd_def lengthSquared_def cross_def dot_def
      clamp_def normalized_def vlength_def)

text \<open>
  C7, as the code has it. \<open>rotate\<close> and \<open>orient\<close> have no failing branch. For an axis of
  magnitude below \<open>1e-10\<close>, \<open>normalized\<close> yields the zero vector and the call returns a
  field: \<open>rotate\<close> evaluates its operand at \<open>p cos(angle)\<close>, and \<open>orient\<close>, which then
  rotates by \<open>acos 0\<close> about the zero vector, at \<open>p cos(acos 0)\<close>.
\<close>

theorem zero_axis_gives_field:
  assumes "vlength axis < 1 / 10 ^ 10"
  shows "evaluate (rotate f angle axis) P = evaluate f (map (\<lambda>p. smul p (cos angle)) P)
       \<and> evaluate (orient f axis) P = evaluate f (map (\<lambda>p. smul p (cos (arccos 0))) P)"
  using normalized_tiny [OF assms]
  by (simp add: orient_zero_axis rotate_zero_axis normalized_def vlength_def)

theorem zero_axis_gives_field_witness:
  "evaluate (rotate (sphere 1 (Vector3 0 0 0)) 0 (Vector3 0 0 0)) [Vector3 2 0 0] = Inr [1]
   \<and> evaluate (orient (sphere 1 (Vector3 0 0 0)) (Vector3 0 0 0)) [Vector3 2 0 0] = Inr [- 1]"
proof -
  have tiny: "vlength (Vector3 0 0 0) < 1 / 10 ^ 10"
    by (simp add: vlength_def)
  show ?thesis
    using zero_axis_gives_field [OF tiny, of "sphere 1 (Vector3 0 0 0)" 0 "[Vector3 2 0 0]"]
    by (simp add: smul_def sphere_on_x_axis)
qed

text \<open>The claim as stated fails: with the zero vector as axis, both calls return a field
  that answers a query.\<close>

theorem zero_axis_counterexample:
  "vlength (Vector3 0 0 0) < 1 / 10 ^ 10
   \<and> call (rotate (sphere 1 (Vector3 0 0 0)) 0 (Vector3 0 0 0)) (Vector3 2 0 0) = Inr 1
   \<and> call (orient (sphere 1 (Vector3 0 0 0)) (Vector3 0 0 0)) (Vector3 2 0 0) = Inr (- 1)"
proof -
  have tiny: "vlength (Vector3 0 0 0) < 1 / 10 ^ 10"
    by (simp add: vlength_def)
  have r: "evaluate (rotate (sphere 1 (Vector3 0 0 0)) 0 (Vector3 0 0 0)) [Vector3 2 0 0]
             = Inr [1]"
    by (simp add: rotate_zero_axis [OF normalized_tiny [OF tiny]] smul_def sphere_on_x_axis)
  have o: "evaluate (orient (sphere 1 (Vector3 0 0 0)) (Vector3 0 0 0)) [Vector3 2 0 0]
             = Inr [- 1]"
    by (simp add: orient_zero_axis [OF normalized_tiny [OF tiny]]
        rotate_zero_axis [OF normalized_tiny [OF tiny]] smul_def sphere_on_x_axis)
  show ?thesis using tiny r o by (simp add: call_def evaluate_def)
qed

subsection \<open>Triangle table\<close>

lemma triTable_length: "length triTable = 256"
  by (simp add: triTable_def)

text \<open>Every row from index 17 on is a row of sixteen zeros.\<close>

lemma triTable_tail_row:
  assumes "17 \<le> c" and "c \<le> 255"
  shows "read_at_int triTable c = Inr (replicate 16 0)"
proof -
  have "nat c - 17 < 239" using assms by linarith
  then show ?thesis
    using assms by (simp add: read_at_int_def triTable_def nth_append)
qed

text \<open>On such a row the emission loop finds no terminator and leaves the row.\<close>

lemma emit_zero_row:
  "0 < length edgeVertices \<Longrightarrow>
   emit_triangles (replicate 16 0) edgeVertices i triangles = Inl OutOfBounds"
proof (induction "replicate 16 (0::int)" edgeVertices i triangles rule: emit_triangles.induct)
  case (1 edgeVertices i triangles)
  show ?case
  proof (cases "16 \<le> i")
    case True
    then show ?thesis by (subst emit_triangles.simps) simp
  next
    case False
    then have i: "i < 16" by simp
    show ?thesis
    proof (cases "collect (\<lambda>j. ebind (read_at (replicate 16 0) j) (read_at_int edgeVertices))
                [i, i + 1, i + 2]")
      case (Inl e)
      then have "e = OutOfBounds"
        using "1.prems"
        by (auto simp: ebind_def read_at_def read_at_int_def split: if_splits sum.splits)
      then show ?thesis using i Inl by (subst emit_triangles.simps) simp
    next
      case (Inr pushed)
      then show ?thesis
        using i "1.hyps" [of pushed] "1.prems"
        by (subst emit_triangles.simps) simp
    qed
  qed
qed

lemma cube17: "cubeIndex_of [-1, 1, 1, 1, -1, 1, 1, 1] 0 = 17"
  by (simp add: cubeIndex_of_def upt_rec)

lemma values17:
  "collect (\<lambda>(dx, dy, dz). read_at_int [-1, 1, 1, 1, -1, 1, 1, 1::real]
               (getIndex dx dy dz (2, 2, 2))) corner_offsets
   = Inr [-1, 1, 1, 1, -1, 1, 1, 1]"
  by (simp add: corner_offsets_def getIndex_def read_at_int_def)

lemma cell17: "cell_triangles [-1, 1, 1, 1, -1, 1, 1, 1] (2, 2, 2) 0 0 0 0 = Inl OutOfBounds"
  by (simp add: cell_triangles_def values17 ebind_def cube17 Let_def
      edge_corners_def vertexInterp_def checked_div_def triTable_tail_row emit_zero_row)

text \<open>
  C1. The claim asks for the full standard table, every row with its \<open>-1\<close> terminator.
  The table of the source stops after 17 rows. For the volume of one cell whose corners
  0 and 4 are inside (cube index 17), the row read is sixteen zeros, and the emission
  loop of \<open>extractSurface\<close> reads past the row.
\<close>

theorem truncated_triTable_overrun:
  "extractSurface [-1, 1, 1, 1, -1, 1, 1, 1] (2, 2, 2) 0 = Inl OutOfBounds
   \<and> cubeIndex_of [-1, 1, 1, 1, -1, 1, 1, 1] 0 = 17
   \<and> read_at_int triTable 17 = Inr (replicate 16 0)"
  by (simp add: extractSurface_def cell17 cube17 triTable_tail_row ebind_def)

subsection \<open>Bounds estimator\<close>

lemma scan_near_none:
  "length points \<le> length vals \<Longrightarrow> \<forall>v\<in>set vals. \<not> \<bar>v\<bar> \<le> threshold \<Longrightarrow>
   scan_near threshold points vals acc = Inr acc"
  by (induction threshold points vals acc rule: scan_near.induct) auto

lemma scan_near_ok:
  "length points \<le> length vals \<Longrightarrow> \<exists>r. scan_near threshold points vals acc = Inr r"
  by (induction threshold points vals acc rule: scan_near.induct) auto

lemma vle_vmin: "vle lo a \<Longrightarrow> vle lo p \<Longrightarrow> vle lo (vmin a p)"
  by (simp add: vle_def vmin_def)

lemma vle_vmax: "vle a hi \<Longrightarrow> vle p hi \<Longrightarrow> vle (vmax a p) hi"
  by (simp add: vle_def vmax_def)

lemma vmin_le_vmax: "vle (vmin a p) (vmax b p)"
  by (simp add: vle_def vmin_def vmax_def min_le_iff_disj le_max_iff_disj)

lemma scan_near_inv:
  "scan_near threshold points vals (nm, nM, found) = Inr (nm', nM', found') \<Longrightarrow>
   \<forall>p\<in>set points. vle lo p \<and> vle p hi \<Longrightarrow>
   vle lo nm \<Longrightarrow> vle nM hi \<Longrightarrow> (found \<longrightarrow> vle nm nM) \<Longrightarrow>
   vle lo nm' \<and> vle nM' hi \<and> (found' \<longrightarrow> vle nm' nM')"
proof (induction threshold points vals "(nm, nM, found)" arbitrary: nm nM found
       rule: scan_near.induct)
  case (1 threshold vals)
  then show ?case by simp
next
  case (2 threshold p points)
  then show ?case by simp
next
  case (3 threshold p points v vals newMin newMax foundAny)
  show ?case
  proof (cases "\<bar>v\<bar> \<le> threshold")
    case True
    have p: "vle lo p" "vle p hi" using "3.prems"(2) by simp_all
    show ?thesis
      using True "3.prems" "3.hyps" [of "vmin newMin p" "vmax newMax p" True]
      by (simp add: vle_vmin vle_vmax vmin_le_vmax p)
  next
    case False
    show ?thesis
      using False "3.prems" "3.hyps" [of newMin newMax foundAny] by simp
  qed
qed

lemma upto_15_set: "x \<in> set [0 .. estimate_samples - 1] \<Longrightarrow> 0 \<le> x \<and> x \<le> 15"
  by (simp add: estimate_samples_def)

lemma grid_coord_within:
  fixes lo hi :: real
  assumes "lo \<le> hi" "0 \<le> x" "x \<le> (15::int)"
  shows "lo \<le> lo + of_int x * ((hi - lo) / 15)" "lo + of_int x * ((hi - lo) / 15) \<le> hi"
proof -
  have x: "0 \<le> (of_int x :: real)" "(of_int x :: real) \<le> 15" using assms by simp_all
  have d: "0 \<le> (hi - lo) / 15" using assms by simp
  show "lo \<le> lo + of_int x * ((hi - lo) / 15)" using x d by simp
  have "of_int x * ((hi - lo) / 15) \<le> 15 * ((hi - lo) / 15)"
    using x d by (intro mult_right_mono) simp_all
  then show "lo + of_int x * ((hi - lo) / 15) \<le> hi" by simp
qed

lemma sample_points_within:
  assumes "vle lo hi" and "p \<in> set (sample_points lo (sdiv (vsub hi lo) (of_int (estimate_samples - 1))))"
  shows "vle lo p \<and> vle p hi"
proof -
  from assms(2) obtain x y z where
    xyz: "0 \<le> x \<and> x \<le> 15" "0 \<le> y \<and> y \<le> 15" "0 \<le> z \<and> z \<le> 15"
    and p: "p = Vector3 (vx lo + of_int x * ((vx hi - vx lo) / 15))
                        (vy lo + of_int y * ((vy hi - vy lo) / 15))
                        (vz lo + of_int z * ((vz hi - vz lo) / 15))"
    by (auto simp add: sample_points_def sdiv_def vsub_def estimate_samples_def)
  show ?thesis
    using assms(1) xyz grid_coord_within
    by (simp add: p vle_def)
qed


lemma box_within_mono: "B \<le> B' \<Longrightarrow> box_within B lo hi \<Longrightarrow> box_within B' lo hi"
  by (auto simp add: box_within_def vle_def)

lemma expand_coord:
  fixes lo hi B :: real
  assumes "- B \<le> lo" "lo \<le> hi" "hi \<le> B"
  shows "- (2 * B) \<le> (lo + hi) / 2 - (hi - lo)" "(lo + hi) / 2 + (hi - lo) \<le> 2 * B"
  using assms by (simp_all add: field_simps)

lemma shrink_coord:
  fixes lo hi B nm nM :: real
  assumes "- B \<le> lo" "hi \<le> B" "lo \<le> nm" "nm \<le> nM" "nM \<le> hi"
  shows "- (2 * B) \<le> nm - (hi - lo) / 30" "nm \<le> (2 * hi - 2 * lo) / 30 + nM"
    "nM + (hi - lo) / 30 \<le> 2 * B"
  using assms by (simp_all add: field_simps)

lemma expand_box_within:
  assumes "box_within B lo hi"
  shows "box_within (2 * B) (vsub (smul (vadd lo hi) 0.5) (vsub hi lo))
                            (vadd (smul (vadd lo hi) 0.5) (vsub hi lo))"
  using assms
  by (simp add: box_within_def vle_def vsub_def vadd_def smul_def expand_coord)

lemma shrink_box_within:
  assumes "box_within B lo hi" and "vle lo nm" and "vle nM hi" and "vle nm nM"
  shows "box_within (2 * B)
           (vsub nm (smul (sdiv (vsub hi lo) (of_int (estimate_samples - 1))) 0.5))
           (vadd nM (smul (sdiv (vsub hi lo) (of_int (estimate_samples - 1))) 0.5))"
  using assms shrink_coord [of B "vx lo" "vx hi" "vx nm" "vx nM"]
    shrink_coord [of B "vy lo" "vy hi" "vy nm" "vy nM"]
    shrink_coord [of B "vz lo" "vz hi" "vz nm" "vz nM"]
  by (simp add: box_within_def vle_def vsub_def vadd_def smul_def sdiv_def estimate_samples_def)

lemma estimate_body_cases:
  assumes f: "batch_preserving f" and box: "box_within B lo hi"
  shows "estimate_body f lo hi prev = Inr Break \<or>
         (\<exists>lo' hi' t. estimate_body f lo hi prev = Inr (Continue lo' hi' t)
                      \<and> box_within (2 * B) lo' hi')"
proof -
  define step where "step = sdiv (vsub hi lo) (of_int (estimate_samples - 1))"
  define threshold where "threshold = vlength step / 2"
  define points where "points = sample_points lo step"
  show ?thesis
  proof (cases "\<bar>threshold - prev\<bar> < 1 / 10 ^ 10")
    case True
    then show ?thesis
      by (simp add: estimate_body_def Let_def step_def threshold_def)
  next
    case False
    from f obtain vs where vs: "evaluate f points = Inr vs" "length vs = length points"
      unfolding batch_preserving_def by blast
    from scan_near_ok [of points vs threshold "(hi, lo, False)"] vs(2)
    obtain nm nM found where scan: "scan_near threshold points vs (hi, lo, False) = Inr (nm, nM, found)"
      by (metis order_refl prod_cases3)
    have lohi: "vle lo hi" using box by (simp add: box_within_def)
    have pts: "\<forall>p\<in>set points. vle lo p \<and> vle p hi"
      using sample_points_within [OF lohi] by (simp add: points_def step_def)
    have inv: "vle lo nm \<and> vle nM hi \<and> (found \<longrightarrow> vle nm nM)"
      using scan_near_inv [OF scan pts lohi lohi] by simp
    have body: "estimate_body f lo hi prev =
        (if \<not> found then
           Inr (Continue (vsub (smul (vadd lo hi) 0.5) (vsub hi lo))
                         (vadd (smul (vadd lo hi) 0.5) (vsub hi lo)) threshold)
         else Inr (Continue (vsub nm (smul step 0.5)) (vadd nM (smul step 0.5)) threshold))"
      unfolding estimate_body_def Let_def step_def [symmetric] threshold_def [symmetric]
        points_def [symmetric]
      using False vs(1) scan by (simp add: ebind_def)
    show ?thesis
    proof (cases found)
      case True
      then show ?thesis
        using body inv shrink_box_within [OF box, of nm nM] by (simp add: step_def)
    next
      case False
      then show ?thesis using body expand_box_within [OF box] by simp
    qed
  qed
qed

lemma estimate_loop_returns:
  "batch_preserving f \<Longrightarrow> iteration \<le> 32 \<Longrightarrow> box_within (10 * 2 ^ iteration) lo hi \<Longrightarrow>
   \<exists>m lo' hi'. estimate_loop f iteration lo hi prev = Inr (m, lo', hi')
      \<and> m \<le> 32 \<and> box_within (10 * 2 ^ 32) lo' hi'"
proof (induction f iteration lo hi prev rule: estimate_loop.induct)
  case (1 sdf iteration boundsMin boundsMax prevThreshold)
  have final: "box_within (10 * 2 ^ 32) boundsMin boundsMax"
  proof (rule box_within_mono [OF _ "1.prems"(3)])
    have "(2::real) ^ iteration \<le> 2 ^ 32"
      using "1.prems"(2) by (intro power_increasing) simp_all
    then show "(10::real) * 2 ^ iteration \<le> 10 * 2 ^ 32" by simp
  qed
  show ?case
  proof (cases "iteration < 32")
    case False
    then show ?thesis
      using final "1.prems"(2) by (subst estimate_loop.simps) simp
  next
    case True
    from estimate_body_cases [OF "1.prems"(1) "1.prems"(3), of prevThreshold]
    show ?thesis
    proof
      assume "estimate_body sdf boundsMin boundsMax prevThreshold = Inr Break"
      then show ?thesis
        using True final by (subst estimate_loop.simps) simp
    next
      assume "\<exists>lo' hi' t. estimate_body sdf boundsMin boundsMax prevThreshold
                  = Inr (Continue lo' hi' t) \<and> box_within (2 * (10 * 2 ^ iteration)) lo' hi'"
      then obtain lo' hi' t where
        b: "estimate_body sdf boundsMin boundsMax prevThreshold = Inr (Continue lo' hi' t)"
        and w: "box_within (2 * (10 * 2 ^ iteration)) lo' hi'" by blast
      have w': "box_within (10 * 2 ^ (iteration + 1)) lo' hi'"
        using w by (simp add: mult.commute mult.left_commute)
      have "\<exists>m lo'' hi''. estimate_loop sdf (iteration + 1) lo' hi' t = Inr (m, lo'', hi'')
               \<and> m \<le> 32 \<and> box_within (10 * 2 ^ 32) lo'' hi''"
        using "1.IH" [OF True b refl "1.prems"(1) _ w'] True by simp
      then show ?thesis
        using True b by (subst estimate_loop.simps) simp
    qed
  qed
qed


lemma estimate_body_none_near:
  assumes vs: "evaluate f (sample_points lo (sdiv (vsub hi lo) (of_int (estimate_samples - 1)))) = Inr vs"
    and len: "length vs = length (sample_points lo (sdiv (vsub hi lo) (of_int (estimate_samples - 1))))"
    and nobreak: "\<not> \<bar>vlength (sdiv (vsub hi lo) (of_int (estimate_samples - 1))) / 2 - prev\<bar> < 1 / 10 ^ 10"
    and none: "\<forall>d\<in>set vs. \<not> \<bar>d\<bar> \<le> vlength (sdiv (vsub hi lo) (of_int (estimate_samples - 1))) / 2"
  shows "estimate_body f lo hi prev =
           Inr (Continue (vsub (smul (vadd lo hi) 0.5) (vsub hi lo))
                         (vadd (smul (vadd lo hi) 0.5) (vsub hi lo))
                         (vlength (sdiv (vsub hi lo) (of_int (estimate_samples - 1))) / 2))"
proof -
  have scan: "scan_near (vlength (sdiv (vsub hi lo) (of_int (estimate_samples - 1))) / 2)
                (sample_points lo (sdiv (vsub hi lo) (of_int (estimate_samples - 1)))) vs (hi, lo, False)
              = Inr (hi, lo, False)"
    using len none by (intro scan_near_none) simp_all
  show ?thesis
    unfolding estimate_body_def Let_def
    using nobreak vs scan by (simp add: ebind_def)
qed

lemma doubled_extent:
  "vsub (vadd (smul (vadd lo hi) 0.5) (vsub hi lo)) (vsub (smul (vadd lo hi) 0.5) (vsub hi lo))
     = smul (vsub hi lo) 2"
  "smul (vadd (vsub (smul (vadd lo hi) 0.5) (vsub hi lo)) (vadd (smul (vadd lo hi) 0.5) (vsub hi lo))) 0.5
     = smul (vadd lo hi) 0.5"
  by (simp_all add: vsub_def vadd_def smul_def)

lemma far_field_evaluate: "evaluate far_field P = Inr (map (\<lambda>p. 5) P)"
  by (simp add: evaluate_def far_field_def SDF3_of_Function_def wrapFunction_def)

lemma far_field_batch_preserving: "batch_preserving far_field"
  by (simp add: batch_preserving_def far_field_evaluate)

lemma initial_step:
  "sdiv (vsub (Vector3 10 10 10) (Vector3 (- 10) (- 10) (- 10))) (of_int (estimate_samples - 1))
     = Vector3 (4 / 3) (4 / 3) (4 / 3)"
  by (simp add: sdiv_def vsub_def estimate_samples_def)

lemma initial_threshold:
  "0 \<le> vlength (Vector3 (4 / 3) (4 / 3) (4 / 3)) / 2"
  "vlength (Vector3 (4 / 3) (4 / 3) (4 / 3)) / 2 < 5"
proof -
  show "0 \<le> vlength (Vector3 (4 / 3) (4 / 3) (4 / 3)) / 2" by (simp add: vlength_def)
  have "sqrt (16 / 3) < 10" by (rule real_less_lsqrt) simp_all
  then show "vlength (Vector3 (4 / 3) (4 / 3) (4 / 3)) / 2 < 5" by (simp add: vlength_def)
qed

lemma estimate_loop_continue:
  assumes "iteration < 32"
    and "estimate_body f lo hi prev = Inr (Continue lo' hi' t)"
  shows "estimate_loop f iteration lo hi prev = estimate_loop f (iteration + 1) lo' hi' t"
  using assms by (subst estimate_loop.simps) simp

text \<open>
  C8, as the code has it. For a field that returns one distance per sampled point:
  (1) in an iteration of the loop (counter below 32) that does not \<open>break\<close> and in which
  no sampled value has \<open>|d| \<le> threshold\<close>, the body yields the box
  \<open>(center - size, center + size)\<close> with \<open>size\<close> the old extent, the loop goes on from
  that box with the counter advanced by one, and the new box has twice the extent and
  the same centre; (2) the loop ends with its counter at most 32, and \<open>estimateBounds\<close>
  returns a box \<open>bmin \<le> bmax\<close> inside \<open>[-10 2\<^sup>3\<^sup>2, 10 2\<^sup>3\<^sup>2]\<^sup>3\<close>.
\<close>

theorem estimateBounds_doubles_and_returns:
  assumes f: "batch_preserving f"
  shows "(let step = sdiv (vsub hi lo) (of_int (estimate_samples - 1));
              threshold = vlength step / 2;
              center = smul (vadd lo hi) 0.5;
              size = vsub hi lo
          in iteration < 32
             \<and> \<not> \<bar>threshold - prev\<bar> < 1 / 10 ^ 10
             \<and> evaluate f (sample_points lo step) = Inr vs
             \<and> (\<forall>d\<in>set vs. \<not> \<bar>d\<bar> \<le> threshold)
             \<longrightarrow> estimate_body f lo hi prev
                   = Inr (Continue (vsub center size) (vadd center size) threshold)
                 \<and> estimate_loop f iteration lo hi prev
                   = estimate_loop f (iteration + 1) (vsub center size) (vadd center size)
                       threshold
                 \<and> vsub (vadd center size) (vsub center size) = smul size 2
                 \<and> smul (vadd (vsub center size) (vadd center size)) 0.5 = center)
       \<and> (\<exists>n bmin bmax.
             estimate_loop f 0 (Vector3 (- 10) (- 10) (- 10)) (Vector3 10 10 10) (- 1)
               = Inr (n, bmin, bmax)
             \<and> n \<le> 32
             \<and> estimateBounds f = Inr (bmin, bmax)
             \<and> box_within (10 * 2 ^ 32) bmin bmax)"
proof (rule conjI)
  define step where "step = sdiv (vsub hi lo) (of_int (estimate_samples - 1))"
  define threshold where "threshold = vlength step / 2"
  define center where "center = smul (vadd lo hi) 0.5"
  define size where "size = vsub hi lo"
  have len: "evaluate f (sample_points lo step) = Inr vs
               \<Longrightarrow> length vs = length (sample_points lo step)"
    using f unfolding batch_preserving_def by (metis sum.inject(2))
  have ext: "vsub (vadd center size) (vsub center size) = smul size 2"
    "smul (vadd (vsub center size) (vadd center size)) 0.5 = center"
    using doubled_extent [of lo hi] by (simp_all add: center_def size_def)
  have "estimate_body f lo hi prev = Inr (Continue (vsub center size) (vadd center size) threshold)
        \<and> estimate_loop f iteration lo hi prev
            = estimate_loop f (iteration + 1) (vsub center size) (vadd center size) threshold"
    if it: "iteration < 32"
      and nobreak: "\<not> \<bar>threshold - prev\<bar> < 1 / 10 ^ 10"
      and vs: "evaluate f (sample_points lo step) = Inr vs"
      and none: "\<forall>d\<in>set vs. \<not> \<bar>d\<bar> \<le> threshold"
  proof -
    have body: "estimate_body f lo hi prev
                  = Inr (Continue (vsub center size) (vadd center size) threshold)"
      using vs len [OF vs] nobreak none
      unfolding step_def threshold_def center_def size_def
      by (rule estimate_body_none_near)
    from estimate_loop_continue [OF it body] body show ?thesis by simp
  qed
  then show "(let step = sdiv (vsub hi lo) (of_int (estimate_samples - 1));
              threshold = vlength step / 2;
              center = smul (vadd lo hi) 0.5;
              size = vsub hi lo
          in iteration < 32
             \<and> \<not> \<bar>threshold - prev\<bar> < 1 / 10 ^ 10
             \<and> evaluate f (sample_points lo step) = Inr vs
             \<and> (\<forall>d\<in>set vs. \<not> \<bar>d\<bar> \<le> threshold)
             \<longrightarrow> estimate_body f lo hi prev
                   = Inr (Continue (vsub center size) (vadd center size) threshold)
                 \<and> estimate_loop f iteration lo hi prev
                   = estimate_loop f (iteration + 1) (vsub center size) (vadd center size)
                       threshold
                 \<and> vsub (vadd center size) (vsub center size) = smul size 2
                 \<and> smul (vadd (vsub center size) (vadd center size)) 0.5 = center)"
    using ext unfolding Let_def step_def threshold_def center_def size_def
    by blast
next
  have "box_within (10 * 2 ^ 0) (Vector3 (- 10) (- 10) (- 10)) (Vector3 10 10 10)"
    by (simp add: box_within_def vle_def)
  from estimate_loop_returns [OF f _ this, of "- 1"]
  obtain n bmin bmax where
    "estimate_loop f 0 (Vector3 (- 10) (- 10) (- 10)) (Vector3 10 10 10) (- 1) = Inr (n, bmin, bmax)"
    "n \<le> 32" "box_within (10 * 2 ^ 32) bmin bmax"
    by auto
  then show "\<exists>n bmin bmax.
             estimate_loop f 0 (Vector3 (- 10) (- 10) (- 10)) (Vector3 10 10 10) (- 1)
               = Inr (n, bmin, bmax)
             \<and> n \<le> 32
             \<and> estimateBounds f = Inr (bmin, bmax)
             \<and> box_within (10 * 2 ^ 32) bmin bmax"
    by (auto simp add: estimateBounds_def ebind_def)
qed

theorem estimateBounds_doubles_and_returns_witness:
  "estimate_body far_field (Vector3 (- 10) (- 10) (- 10)) (Vector3 10 10 10) (- 1)
     = Inr (Continue (Vector3 (- 20) (- 20) (- 20)) (Vector3 20 20 20)
              (vlength (Vector3 (4 / 3) (4 / 3) (4 / 3)) / 2))
   \<and> estimate_loop far_field 0 (Vector3 (- 10) (- 10) (- 10)) (Vector3 10 10 10) (- 1)
     = estimate_loop far_field 1 (Vector3 (- 20) (- 20) (- 20)) (Vector3 20 20 20)
         (vlength (Vector3 (4 / 3) (4 / 3) (4 / 3)) / 2)
   \<and> (\<exists>bmin bmax. estimateBounds far_field = Inr (bmin, bmax)
         \<and> box_within (10 * 2 ^ 32) bmin bmax)"
proof -
  define pts where
    "pts = sample_points (Vector3 (- 10) (- 10) (- 10)) (Vector3 (4 / 3) (4 / 3) (4 / 3))"
  have none: "\<forall>d\<in>set (map (\<lambda>p. 5::real) pts).
                \<not> \<bar>d\<bar> \<le> vlength (Vector3 (4 / 3) (4 / 3) (4 / 3)) / 2"
    using initial_threshold(2) by auto
  have nobreak: "\<not> \<bar>vlength (Vector3 (4 / 3) (4 / 3) (4 / 3)) / 2 - (- 1)\<bar> < 1 / 10 ^ 10"
    using initial_threshold(1) by simp
  have centre: "vsub (smul (vadd (Vector3 (- 10) (- 10) (- 10)) (Vector3 10 10 10)) 0.5)
                  (vsub (Vector3 10 10 10) (Vector3 (- 10) (- 10) (- 10)))
                = Vector3 (- 20) (- 20) (- 20)"
    "vadd (smul (vadd (Vector3 (- 10) (- 10) (- 10)) (Vector3 10 10 10)) 0.5)
                  (vsub (Vector3 10 10 10) (Vector3 (- 10) (- 10) (- 10)))
                = Vector3 20 20 20"
    by (simp_all add: vsub_def vadd_def smul_def)
  have it: "(0::nat) < 32" "(0::nat) + 1 = 1" by simp_all
  show ?thesis
    using estimateBounds_doubles_and_returns [OF far_field_batch_preserving,
        of "Vector3 10 10 10" "Vector3 (- 10) (- 10) (- 10)" 0 "- 1" "map (\<lambda>p. 5) pts"]
      none nobreak far_field_evaluate [of pts] it(1)
    unfolding Let_def initial_step pts_def [symmetric] centre it(2)
    by blast
qed

text \<open>The loop over the samples reads \<open>values[i]\<close> unchecked. On the default-constructed
  field the first pass reads \<open>values[0]\<close> from an empty vector, and no box is returned:
  the claim as stated, for every field, fails.\<close>

lemma vlength_nonneg: "0 \<le> vlength v"
  by (simp add: vlength_def)

lemma first_threshold_differs:
  fixes t :: real
  assumes "0 \<le> t"
  shows "\<not> \<bar>t / 2 - (- 1)\<bar> < 1 / 10 ^ 10"
proof -
  have "(1::real) / 10 ^ 10 < 1" by simp
  with assms show ?thesis by linarith
qed

lemma sample_points_nonempty: "sample_points lo st \<noteq> []"
proof -
  have "[0 .. estimate_samples - 1] = 0 # [1 .. 15]"
    by (simp add: estimate_samples_def upto_rec1 [of 0])
  then show ?thesis by (simp add: sample_points_def)
qed

theorem estimateBounds_default_counterexample:
  "estimateBounds SDF3_default = Inl OutOfBounds"
proof -
  obtain p ps where pts: "sample_points (Vector3 (- 10) (- 10) (- 10))
      (sdiv (vsub (Vector3 10 10 10) (Vector3 (- 10) (- 10) (- 10)))
         (of_int (estimate_samples - 1)))
      = p # ps"
    using sample_points_nonempty by (meson list.exhaust)
  have nobreak: "\<not> \<bar>vlength (sdiv (vsub (Vector3 10 10 10) (Vector3 (- 10) (- 10) (- 10)))
                     (of_int (estimate_samples - 1))) / 2 - (- 1)\<bar> < 1 / 10 ^ 10"
    by (rule first_threshold_differs) (rule vlength_nonneg)
  have "estimate_body SDF3_default (Vector3 (- 10) (- 10) (- 10)) (Vector3 10 10 10) (- 1)
          = Inl OutOfBounds"
    unfolding estimate_body_def Let_def pts
    using nobreak by (simp add: ebind_def evaluate_def SDF3_default_def)
  then show ?thesis
    by (simp add: estimateBounds_def estimate_loop.simps [of _ 0] ebind_def)
qed

subsection \<open>Step fallback of generate\<close>

lemma calc_step_fallback:
  "opt_step options = 0 \<Longrightarrow> opt_samples options \<le> 0 \<Longrightarrow>
   calc_step options boundsMin boundsMax = 1 / 10"
  by (simp add: calc_step_def)

lemma calc_step_given:
  "s \<noteq> 0 \<Longrightarrow> calc_step (options\<lparr>opt_step := s\<rparr>) boundsMin boundsMax = s"
  by (simp add: calc_step_def)

lemma process_batch_step_field:
  "process_batch sdf (options\<lparr>opt_step := s\<rparr>) = process_batch sdf options"
  by (intro ext) (simp add: process_batch_def)

lemma processBatchRange_step_field:
  "processBatchRange sdf (options\<lparr>opt_step := s\<rparr>) = processBatchRange sdf options"
  by (intro ext) (simp add: processBatchRange_def process_batch_step_field)

lemma worker_count_step_field:
  "worker_count hw (options\<lparr>opt_step := s\<rparr>) = worker_count hw options"
  by (simp add: worker_count_def)

lemma demo_plane_evaluate: "evaluate demo_plane P = Inr (map (\<lambda>p. vz p - 1 / 20) P)"
  by (simp add: demo_plane_def plane_def evaluate_def SDF3_of_Function_def wrapFunction_def
      normalized_def vlength_def sdiv_def dot_def vsub_def)

lemma demo_plane_call: "call demo_plane p = Inr (vz p - 1 / 20)"
  using demo_plane_evaluate [of "[p]"] by (simp add: call_def evaluate_def)

lemma make_batches_one: "make_batches 2 2 2 32 = Inr [(0, 1, 0, 1, 0, 1)]"
  by (simp add: make_batches_def batch_starts.simps)

lemma demo_not_skipped:
  "canSkipBatch demo_plane (Vector3 0 0 0) (Vector3 (1 / 10) (1 / 10) (1 / 10)) = Inr False"
  by (simp add: canSkipBatch_def Let_def ebind_def demo_plane_call smul_def vadd_def vlength_def)

lemma demo_values:
  "collect (\<lambda>(dx, dy, dz). read_at_int [- (1 / 20), - (1 / 20), - (1 / 20), - (1 / 20),
                                          1 / 20, 1 / 20, 1 / 20, 1 / 20 :: real]
               (getIndex dx dy dz (2, 2, 2))) corner_offsets
   = Inr [- (1 / 20), - (1 / 20), - (1 / 20), - (1 / 20), 1 / 20, 1 / 20, 1 / 20, 1 / 20]"
  by (simp add: corner_offsets_def getIndex_def read_at_int_def)

lemma demo_cube: "cubeIndex_of [- (1 / 20), - (1 / 20), - (1 / 20), - (1 / 20),
                                1 / 20, 1 / 20, 1 / 20, 1 / 20] 0 = 15"
  by (simp add: cubeIndex_of_def upt_rec)

lemma demo_row: "read_at_int triTable 15
   = Inr [9, 8, 10, 10, 8, 11, -1, -1, -1, -1, -1, -1, -1, -1, -1, -1]"
  by (simp add: read_at_int_def triTable_def)

lemma demo_emit:
  "length ev = 12 \<Longrightarrow>
   emit_triangles [9, 8, 10, 10, 8, 11, -1, -1, -1, -1, -1, -1, -1, -1, -1, -1] ev 0 []
   = Inr [ev ! 9, ev ! 8, ev ! 10, ev ! 10, ev ! 8, ev ! 11]"
  by (simp add: emit_triangles.simps ebind_def read_at_def read_at_int_def)

lemma unit_cell_corners:
  "map (\<lambda>(dx, dy, dz). Vector3 (of_int dx) (of_int dy) (of_int dz)) corner_offsets
   = [Vector3 0 0 0, Vector3 1 0 0, Vector3 1 1 0, Vector3 0 1 0,
      Vector3 0 0 1, Vector3 1 0 1, Vector3 1 1 1, Vector3 0 1 1]"
  by (simp add: corner_offsets_def)

lemma demo_cell:
  "cell_triangles [- (1 / 20), - (1 / 20), - (1 / 20), - (1 / 20), 1 / 20, 1 / 20, 1 / 20, 1 / 20]
     (2, 2, 2) 0 0 0 0
   = Inr [Vector3 1 0 (1 / 2), Vector3 0 0 (1 / 2), Vector3 1 1 (1 / 2),
          Vector3 1 1 (1 / 2), Vector3 0 0 (1 / 2), Vector3 0 1 (1 / 2)]"
  by (simp add: cell_triangles_def demo_values ebind_def demo_cube Let_def demo_row
      edge_corners_def vertexInterp_def checked_div_def demo_emit unit_cell_corners vadd_def
      vsub_def smul_def)

lemma demo_surface:
  "extractSurface [- (1 / 20), - (1 / 20), - (1 / 20), - (1 / 20), 1 / 20, 1 / 20, 1 / 20, 1 / 20]
     (2, 2, 2) 0
   = Inr [Vector3 1 0 (1 / 2), Vector3 0 0 (1 / 2), Vector3 1 1 (1 / 2),
          Vector3 1 1 (1 / 2), Vector3 0 0 (1 / 2), Vector3 0 1 (1 / 2)]"
  by (simp add: extractSurface_def demo_cell ebind_def)

lemma demo_batch:
  "process_batch demo_plane demo_options (Vector3 0 0 0) (1 / 10) (0, 1, 0, 1, 0, 1)
   = Inr [Vector3 (1 / 10) 0 (1 / 20), Vector3 0 0 (1 / 20), Vector3 (1 / 10) (1 / 10) (1 / 20),
          Vector3 (1 / 10) (1 / 10) (1 / 20), Vector3 0 0 (1 / 20), Vector3 0 (1 / 10) (1 / 20)]"
  by (simp add: process_batch_def demo_options_def demo_not_skipped ebind_def Let_def
      demo_plane_evaluate demo_surface vadd_def vmul_def upto_rec1)

lemma demo_generate:
  "generate 4 demo_plane (demo_options\<lparr>opt_step := 1 / 10\<rparr>)
   = Inr [Vector3 (1 / 10) 0 (1 / 20), Vector3 0 0 (1 / 20), Vector3 (1 / 10) (1 / 10) (1 / 20),
          Vector3 (1 / 10) (1 / 10) (1 / 20), Vector3 0 0 (1 / 20), Vector3 0 (1 / 10) (1 / 20)]"
proof -
  have s: "calc_step (demo_options\<lparr>opt_step := 1 / 10\<rparr>) lo hi = 1 / 10" for lo hi
    by (rule calc_step_given) simp
  have w: "worker_count 4 demo_options = 4"
    by (simp add: worker_count_def demo_options_def)
  have o: "opt_customBounds demo_options" "opt_boundsMin demo_options = Vector3 0 0 0"
    "opt_boundsMax demo_options = Vector3 (1 / 10) (1 / 10) (1 / 10)"
    "opt_batchSize demo_options = 32"
    by (simp_all add: demo_options_def)
  show ?thesis
    unfolding generate_def s processBatchRange_step_field worker_count_step_field w
    by (simp add: o ebind_def make_batches_one Let_def processBatchRange_def read_at_int_def
        demo_batch upto_rec1)
qed

text \<open>
  C10. With \<open>step = 0\<close> and \<open>samples \<le> 0\<close> the step becomes the constant 0.1, on no
  error path, and \<open>generate\<close> does exactly what it does for an explicit step of 0.1.
\<close>

theorem generate_step_fallback:
  assumes "opt_step options = 0" and "opt_samples options \<le> 0"
  shows "calc_step options boundsMin boundsMax = 1 / 10
       \<and> generate hw sdf options = generate hw sdf (options\<lparr>opt_step := 1 / 10\<rparr>)"
proof -
  have a: "calc_step options lo hi = 1 / 10" for lo hi
    using assms by (rule calc_step_fallback)
  have b: "calc_step (options\<lparr>opt_step := 1 / 10\<rparr>) lo hi = 1 / 10" for lo hi
    by (rule calc_step_given) simp
  show ?thesis
    unfolding generate_def a b processBatchRange_step_field worker_count_step_field
    by simp
qed


theorem generate_step_fallback_witness:
  "calc_step demo_options (Vector3 0 0 0) (Vector3 (1 / 10) (1 / 10) (1 / 10)) = 1 / 10
   \<and> generate 4 demo_plane demo_options
     = Inr [Vector3 (1 / 10) 0 (1 / 20), Vector3 0 0 (1 / 20), Vector3 (1 / 10) (1 / 10) (1 / 20),
          Vector3 (1 / 10) (1 / 10) (1 / 20), Vector3 0 0 (1 / 20), Vector3 0 (1 / 10) (1 / 20)]"
proof -
  have h: "opt_step demo_options = 0" "opt_samples demo_options \<le> 0"
    by (simp_all add: demo_options_def)
  show ?thesis
    using generate_step_fallback [OF h, of "Vector3 0 0 0" "Vector3 (1 / 10) (1 / 10) (1 / 10)"
        4 demo_plane] demo_generate
    by simp
qed

end
